theory Spec2Isabelle
  imports Main
begin

section \<open>The Intellacc MCP server: tool registry and tool dispatch\<close>

text \<open>
  A shallow embedding of \<^verbatim>\<open>src/mcp-server.py\<close>: the two handlers
  \<^verbatim>\<open>handle_list_tools\<close> and \<^verbatim>\<open>handle_call_tool\<close>, together with the
  pieces of Python they rest on (\<^verbatim>\<open>dict.get\<close>, \<^verbatim>\<open>str\<close>, f-strings,
  \<^verbatim>\<open>try/except Exception\<close>, \<^verbatim>\<open>open(...).read()\<close>, \<^verbatim>\<open>subprocess.run\<close>).
\<close>

subsection \<open>Python values\<close>

text \<open>
  The values an argument dictionary of type \<^verbatim>\<open>Dict[str, Any]\<close> holds when it comes from
  a decoded JSON object. This program reads three things from a value: whether it is a
  \<^verbatim>\<open>str\<close> (and which), whether it can be hashed, and what \<^verbatim>\<open>str()\<close> prints for
  it. A float, a list and a dict are therefore represented by their printed form.
  A \<^verbatim>\<open>str\<close> is Unicode text (no lone surrogates), held as the bytes of its UTF-8
  encoding; the NUL character is the byte \<open>CHR 0x00\<close>.
\<close>

datatype pyval =
    PNone
  | PBool bool
  | PInt int
  | PFloat string
  | PStr string
  | PList string
  | PDict string

fun type_name :: "pyval \<Rightarrow> string" where
  "type_name PNone = ''NoneType''"
| "type_name (PBool b) = ''bool''"
| "type_name (PInt i) = ''int''"
| "type_name (PFloat r) = ''float''"
| "type_name (PStr s) = ''str''"
| "type_name (PList r) = ''list''"
| "type_name (PDict r) = ''dict''"

fun hashable :: "pyval \<Rightarrow> bool" where
  "hashable (PList r) = False"
| "hashable (PDict r) = False"
| "hashable v = True"

text \<open>Decimal printing of Python's unbounded integers.\<close>

fun str_nat :: "nat \<Rightarrow> string" where
  "str_nat n =
     (if n < 10 then [''0123456789'' ! n]
      else str_nat (n div 10) @ [''0123456789'' ! (n mod 10)])"

declare str_nat.simps [simp del]

definition str_int :: "int \<Rightarrow> string" where
  "str_int i = (if i < 0 then ''-'' @ str_nat (nat (- i)) else str_nat (nat i))"

text \<open>\<^verbatim>\<open>str(v)\<close>, which is also what an f-string field \<^verbatim>\<open>{v}\<close> prints for these types.\<close>

fun py_str :: "pyval \<Rightarrow> string" where
  "py_str PNone = ''None''"
| "py_str (PBool b) = (if b then ''True'' else ''False'')"
| "py_str (PInt i) = str_int i"
| "py_str (PFloat r) = r"
| "py_str (PStr s) = s"
| "py_str (PList r) = r"
| "py_str (PDict r) = r"

text \<open>\<^verbatim>\<open>d.get(k, default)\<close>; the one-argument form has the default \<^verbatim>\<open>None\<close>.\<close>

definition dict_get :: "(string \<rightharpoonup> pyval) \<Rightarrow> string \<Rightarrow> pyval \<Rightarrow> pyval" where
  "dict_get d k dflt = (case d k of None \<Rightarrow> dflt | Some v \<Rightarrow> v)"

subsection \<open>Exceptions, the operating environment, and computations\<close>

text \<open>
  An instance of \<^verbatim>\<open>Exception\<close>: its class name and the text \<^verbatim>\<open>str(e)\<close>. Requests to
  end the process (\<^verbatim>\<open>KeyboardInterrupt\<close>, \<^verbatim>\<open>SystemExit\<close>), which are not
  \<^verbatim>\<open>Exception\<close>s, are not faults of a handler and are not modelled.
\<close>

datatype exception = PyException (exc_class: string) (exc_str: string)

text \<open>\<^verbatim>\<open>subprocess.CompletedProcess\<close> with \<^verbatim>\<open>capture_output=True, text=True\<close>.\<close>

record completed_process =
  returncode :: int
  stdout :: string
  stderr :: string

text \<open>What a handler does to the outside: it opens a file, or it starts a process.\<close>

datatype call = Open string | Spawn "string list"

text \<open>
  The world a handler runs in: how reading a file answers, how running a command line
  answers (either may raise), and the log of the external calls made so far.
\<close>

record world =
  fs_read :: "string \<Rightarrow> exception + string"
  proc_run :: "string list \<Rightarrow> exception + completed_process"
  calls :: "call list"

type_synonym 'a io = "world \<Rightarrow> (exception + 'a) \<times> world"

definition return_io :: "'a \<Rightarrow> 'a io" where
  "return_io x w = (Inr x, w)"

definition raise_io :: "exception \<Rightarrow> 'a io" where
  "raise_io e w = (Inl e, w)"

definition bind_io :: "'a io \<Rightarrow> ('a \<Rightarrow> 'b io) \<Rightarrow> 'b io" where
  "bind_io m f w = (case m w of (Inl e, w') \<Rightarrow> (Inl e, w') | (Inr x, w') \<Rightarrow> f x w')"

text \<open>\<^verbatim>\<open>try: body  except Exception as e: handler(e)\<close>\<close>

definition try_except :: "'a io \<Rightarrow> (exception \<Rightarrow> 'a io) \<Rightarrow> 'a io" where
  "try_except body handler w =
     (case body w of (Inl e, w') \<Rightarrow> handler e w' | (Inr x, w') \<Rightarrow> (Inr x, w'))"

text \<open>\<^verbatim>\<open>with open(path, "r") as f: f.read()\<close>\<close>

definition open_read :: "string \<Rightarrow> string io" where
  "open_read path w = (fs_read w path, w\<lparr>calls := calls w @ [Open path]\<rparr>)"

text \<open>
  The argument vector as \<^verbatim>\<open>subprocess\<close> converts it before it starts anything: each
  element has to be a \<^verbatim>\<open>str\<close> (bytes and path objects do not occur in decoded JSON), and
  one that is not raises \<^verbatim>\<open>TypeError\<close>; a \<^verbatim>\<open>str\<close> that contains the NUL character
  cannot be passed to a process and raises \<^verbatim>\<open>ValueError\<close>. The elements are converted
  from left to right, so the first offending element decides the exception.
\<close>

fun fs_args :: "pyval list \<Rightarrow> exception + string list" where
  "fs_args [] = Inr []"
| "fs_args (PStr s # vs) =
     (if CHR 0x00 \<in> set s then Inl (PyException ''ValueError'' ''embedded null byte'')
      else case fs_args vs of Inl e \<Rightarrow> Inl e | Inr ss \<Rightarrow> Inr (s # ss))"
| "fs_args (v # vs) =
     Inl (PyException ''TypeError''
            (''expected str, bytes or os.PathLike object, not '' @ type_name v))"

text \<open>\<^verbatim>\<open>subprocess.run(args, capture_output=True, text=True)\<close>\<close>

definition subprocess_run :: "pyval list \<Rightarrow> completed_process io" where
  "subprocess_run args w =
     (case fs_args args of
        Inl e \<Rightarrow> (Inl e, w)
      | Inr argv \<Rightarrow> (proc_run w argv, w\<lparr>calls := calls w @ [Spawn argv]\<rparr>))"

subsection \<open>The tool registry\<close>

datatype json =
    JString string
  | JInt int
  | JArray "json list"
  | JObject "(string \<times> json) list"

datatype tool = Tool (tool_name: string) (tool_description: string) (inputSchema: json)

definition handle_list_tools :: "tool list io" where
  "handle_list_tools =
     return_io
       [Tool ''query_db''
          ''Execute SQL queries on the Intellacc database''
          (JObject
             [(''type'', JString ''object''),
              (''properties'', JObject
                 [(''query'', JObject
                     [(''type'', JString ''string''),
                      (''description'', JString ''SQL query to execute'')]),
                  (''database'', JObject
                     [(''type'', JString ''string''),
                      (''description'', JString ''Database name (default: intellaccdb)''),
                      (''default'', JString ''intellaccdb'')])]),
              (''required'', JArray [JString ''query''])]),
        Tool ''get_project_status''
          ''Get current project status including todo items and recent changes''
          (JObject
             [(''type'', JString ''object''),
              (''properties'', JObject [])]),
        Tool ''analyze_logs''
          ''Analyze application logs for errors or patterns''
          (JObject
             [(''type'', JString ''object''),
              (''properties'', JObject
                 [(''service'', JObject
                     [(''type'', JString ''string''),
                      (''description'',
                         JString ''Service to analyze (backend, frontend, prediction-engine, db)''),
                      (''enum'', JArray [JString ''backend'', JString ''frontend'',
                                         JString ''prediction-engine'', JString ''db''])]),
                  (''lines'', JObject
                     [(''type'', JString ''integer''),
                      (''description'', JString ''Number of log lines to analyze''),
                      (''default'', JInt 50)])]),
              (''required'', JArray [JString ''service''])])]"

subsection \<open>The dispatcher\<close>

datatype text_content = TextContent (content_type: string) (content_text: string)

text \<open>The dictionary \<^verbatim>\<open>container_map\<close> of the \<^verbatim>\<open>analyze_logs\<close> branch.\<close>

definition container_map :: "string \<rightharpoonup> string" where
  "container_map =
     map_of [(''backend'', ''intellacc_backend''),
             (''frontend'', ''intellacc_frontend''),
             (''prediction-engine'', ''intellacc_prediction_engine''),
             (''db'', ''intellacc_db'')]"

text \<open>
  \<^verbatim>\<open>container_map.get(service)\<close>: the key is hashed first, so a list or a dict raises
  \<^verbatim>\<open>TypeError\<close> (wording of CPython up to 3.13); a hashable value that is not a
  \<^verbatim>\<open>str\<close> equals no key.
\<close>

definition container_map_get :: "pyval \<Rightarrow> (string option) io" where
  "container_map_get service =
     (if \<not> hashable service
      then raise_io (PyException ''TypeError''
                       (''unhashable type: '' @ [CHR 0x27] @ type_name service @ [CHR 0x27]))
      else return_io (case service of PStr s \<Rightarrow> container_map s | _ \<Rightarrow> None))"

definition handle_call_tool :: "string \<Rightarrow> (string \<rightharpoonup> pyval) \<Rightarrow> (text_content list) io" where
  "handle_call_tool name arguments =
     (if name = ''query_db'' then
        (let query = dict_get arguments ''query'' PNone;
             database = dict_get arguments ''database'' (PStr ''intellaccdb'')
         in try_except
              (let cmd = [PStr ''docker'', PStr ''exec'', PStr ''intellacc_db'',
                          PStr ''psql'', PStr ''-U'', PStr ''intellacc_user'', PStr ''-d'', database,
                          PStr ''-c'', query]
               in bind_io (subprocess_run cmd) (\<lambda>result.
                    if returncode result = 0
                    then return_io [TextContent ''text''
                           (''Query executed successfully:\<newline>\<newline>'' @ stdout result)]
                    else return_io [TextContent ''text''
                           (''Query failed:\<newline>'' @ stderr result)]))
              (\<lambda>e. return_io [TextContent ''text'' (''Error executing query: '' @ exc_str e)]))
      else if name = ''get_project_status'' then
        try_except
          (bind_io (open_read ''/home/jayjag/Nextcloud/intellacc.com/CLAUDE.md'') (\<lambda>claude_content.
           bind_io (subprocess_run
                      [PStr ''docker'', PStr ''ps'', PStr ''--format'',
                       PStr (''table {{.Names}}'' @ [CHR 0x09] @ ''{{.Status}}'' @ [CHR 0x09]
                             @ ''{{.Ports}}'')]) (\<lambda>docker_status.
           (let status_report =
                  ''\<newline># Intellacc Project Status\<newline>''
                @ ''\<newline>## Docker Containers\<newline>''
                @ stdout docker_status @ ''\<newline>''
                @ ''\<newline>## Recent Project Context\<newline>''
                @ ''Key features implemented:\<newline>''
                @ ''- LMSR automated market making system\<newline>''
                @ ''- Kelly optimal betting suggestions with belief probability slider\<newline>''
                @ ''- Real-time leaderboards showing actual RP balances  \<newline>''
                @ ''- Database cleanup and optimization\<newline>''
                @ ''- Enhanced prediction UI with working sliders\<newline>''
                @ ''\<newline>## Current Working Directory\<newline>''
                @ ''/home/jayjag/Nextcloud/intellacc.com\<newline>''
                @ ''\<newline>## Key Architecture\<newline>''
                @ ''- Frontend: VanJS (port 5173)\<newline>''
                @ ''- Backend: Express.js (port 3000) \<newline>''
                @ ''- Database: PostgreSQL (port 5432)\<newline>''
                @ ''- Prediction Engine: Rust (port 3001)\<newline>''
            in return_io [TextContent ''text'' status_report]))))
          (\<lambda>e. return_io [TextContent ''text''
                  (''Error getting project status: '' @ exc_str e)])
      else if name = ''analyze_logs'' then
        (let service = dict_get arguments ''service'' PNone;
             lines = dict_get arguments ''lines'' (PInt 50)
         in try_except
              (bind_io (container_map_get service) (\<lambda>container.
                 case container of
                   None \<Rightarrow> return_io [TextContent ''text'' (''Unknown service: '' @ py_str service)]
                 | Some c \<Rightarrow>
                     if c = '''' then
                       return_io [TextContent ''text'' (''Unknown service: '' @ py_str service)]
                     else
                       bind_io (subprocess_run
                                  [PStr ''docker'', PStr ''logs'', PStr ''--tail'',
                                   PStr (py_str lines), PStr c]) (\<lambda>result.
                       (let analysis =
                              ''\<newline># Log Analysis for '' @ py_str service @ ''\<newline>''
                            @ ''\<newline>## Recent Logs ('' @ py_str lines @ '' lines)\<newline>''
                            @ stdout result @ ''\<newline>''
                            @ ''\<newline>## Error Output\<newline>''
                            @ (if stderr result \<noteq> '''' then stderr result else ''No errors'')
                            @ ''\<newline>''
                            @ ''\<newline>## Analysis\<newline>''
                            @ ''- Container: '' @ c @ ''\<newline>''
                            @ ''- Lines analyzed: '' @ py_str lines @ ''\<newline>''
                            @ ''- Status: ''
                            @ (if returncode result = 0 then ''Healthy'' else ''Issues detected'')
                            @ ''\<newline>''
                        in return_io [TextContent ''text'' analysis]))))
              (\<lambda>e. return_io [TextContent ''text'' (''Error analyzing logs: '' @ exc_str e)]))
      else
        return_io [TextContent ''text'' (''Unknown tool: '' @ name)])"

subsection \<open>Names for the constants of the source\<close>

abbreviation claude_md :: string where
  "claude_md \<equiv> ''/home/jayjag/Nextcloud/intellacc.com/CLAUDE.md''"

abbreviation docker_ps :: "string list" where
  "docker_ps \<equiv>
     [''docker'', ''ps'', ''--format'',
      ''table {{.Names}}'' @ [CHR 0x09] @ ''{{.Status}}'' @ [CHR 0x09] @ ''{{.Ports}}'']"

abbreviation query_db_cmd :: "(string \<rightharpoonup> pyval) \<Rightarrow> pyval list" where
  "query_db_cmd arguments \<equiv>
     [PStr ''docker'', PStr ''exec'', PStr ''intellacc_db'',
      PStr ''psql'', PStr ''-U'', PStr ''intellacc_user'', PStr ''-d'',
      dict_get arguments ''database'' (PStr ''intellaccdb''),
      PStr ''-c'', dict_get arguments ''query'' PNone]"

text \<open>The two report templates (the f-strings \<^verbatim>\<open>status_report\<close> and \<^verbatim>\<open>analysis\<close>).\<close>

abbreviation status_report :: "string \<Rightarrow> string" where
  "status_report docker_stdout \<equiv>
       ''\<newline># Intellacc Project Status\<newline>''
     @ ''\<newline>## Docker Containers\<newline>''
     @ docker_stdout @ ''\<newline>''
     @ ''\<newline>## Recent Project Context\<newline>''
     @ ''Key features implemented:\<newline>''
     @ ''- LMSR automated market making system\<newline>''
     @ ''- Kelly optimal betting suggestions with belief probability slider\<newline>''
     @ ''- Real-time leaderboards showing actual RP balances  \<newline>''
     @ ''- Database cleanup and optimization\<newline>''
     @ ''- Enhanced prediction UI with working sliders\<newline>''
     @ ''\<newline>## Current Working Directory\<newline>''
     @ ''/home/jayjag/Nextcloud/intellacc.com\<newline>''
     @ ''\<newline>## Key Architecture\<newline>''
     @ ''- Frontend: VanJS (port 5173)\<newline>''
     @ ''- Backend: Express.js (port 3000) \<newline>''
     @ ''- Database: PostgreSQL (port 5432)\<newline>''
     @ ''- Prediction Engine: Rust (port 3001)\<newline>''"

abbreviation analysis :: "pyval \<Rightarrow> pyval \<Rightarrow> string \<Rightarrow> completed_process \<Rightarrow> string" where
  "analysis service lines container result \<equiv>
       ''\<newline># Log Analysis for '' @ py_str service @ ''\<newline>''
     @ ''\<newline>## Recent Logs ('' @ py_str lines @ '' lines)\<newline>''
     @ stdout result @ ''\<newline>''
     @ ''\<newline>## Error Output\<newline>''
     @ (if stderr result \<noteq> '''' then stderr result else ''No errors'')
     @ ''\<newline>''
     @ ''\<newline>## Analysis\<newline>''
     @ ''- Container: '' @ container @ ''\<newline>''
     @ ''- Lines analyzed: '' @ py_str lines @ ''\<newline>''
     @ ''- Status: ''
     @ (if returncode result = 0 then ''Healthy'' else ''Issues detected'')
     @ ''\<newline>''"

text \<open>A world for concrete runs: every read answers \<open>doc\<close>, every command answers
  \<open>outcome\<close>, and nothing has been called yet.\<close>

definition stub_world :: "exception + string \<Rightarrow> exception + completed_process \<Rightarrow> world" where
  "stub_world doc outcome = \<lparr>fs_read = (\<lambda>path. doc), proc_run = (\<lambda>argv. outcome), calls = []\<rparr>"

section \<open>Properties\<close>

subsection \<open>Each branch of the dispatcher, unfolded\<close>

lemma call_unknown:
  "name \<noteq> ''query_db'' \<Longrightarrow> name \<noteq> ''get_project_status'' \<Longrightarrow> name \<noteq> ''analyze_logs'' \<Longrightarrow>
   handle_call_tool name arguments w = (Inr [TextContent ''text'' (''Unknown tool: '' @ name)], w)"
  by (simp add: handle_call_tool_def return_io_def)

lemma call_query_db:
  "handle_call_tool ''query_db'' arguments w =
     (case subprocess_run (query_db_cmd arguments) w of
        (Inl e, w') \<Rightarrow> (Inr [TextContent ''text'' (''Error executing query: '' @ exc_str e)], w')
      | (Inr result, w') \<Rightarrow>
          (Inr [TextContent ''text''
                 (if returncode result = 0
                  then ''Query executed successfully:\<newline>\<newline>'' @ stdout result
                  else ''Query failed:\<newline>'' @ stderr result)], w'))"
  by (simp add: handle_call_tool_def Let_def try_except_def bind_io_def return_io_def
           split: prod.splits sum.splits)

lemma call_get_project_status:
  "handle_call_tool ''get_project_status'' arguments w =
     (case open_read claude_md w of
        (Inl e, w1) \<Rightarrow>
          (Inr [TextContent ''text'' (''Error getting project status: '' @ exc_str e)], w1)
      | (Inr claude_content, w1) \<Rightarrow>
          (case subprocess_run (map PStr docker_ps) w1 of
             (Inl e, w2) \<Rightarrow>
               (Inr [TextContent ''text'' (''Error getting project status: '' @ exc_str e)], w2)
           | (Inr docker_status, w2) \<Rightarrow>
               (Inr [TextContent ''text''
                  (''\<newline># Intellacc Project Status\<newline>''
                @ ''\<newline>## Docker Containers\<newline>''
                @ stdout docker_status @ ''\<newline>''
                @ ''\<newline>## Recent Project Context\<newline>''
                @ ''Key features implemented:\<newline>''
                @ ''- LMSR automated market making system\<newline>''
                @ ''- Kelly optimal betting suggestions with belief probability slider\<newline>''
                @ ''- Real-time leaderboards showing actual RP balances  \<newline>''
                @ ''- Database cleanup and optimization\<newline>''
                @ ''- Enhanced prediction UI with working sliders\<newline>''
                @ ''\<newline>## Current Working Directory\<newline>''
                @ ''/home/jayjag/Nextcloud/intellacc.com\<newline>''
                @ ''\<newline>## Key Architecture\<newline>''
                @ ''- Frontend: VanJS (port 5173)\<newline>''
                @ ''- Backend: Express.js (port 3000) \<newline>''
                @ ''- Database: PostgreSQL (port 5432)\<newline>''
                @ ''- Prediction Engine: Rust (port 3001)\<newline>'')], w2)))"
  by (simp add: handle_call_tool_def Let_def try_except_def bind_io_def return_io_def
           split: prod.splits sum.splits)

lemma call_analyze_logs:
  "handle_call_tool ''analyze_logs'' arguments w =
     (case container_map_get (dict_get arguments ''service'' PNone) w of
        (Inl e, w1) \<Rightarrow> (Inr [TextContent ''text'' (''Error analyzing logs: '' @ exc_str e)], w1)
      | (Inr container, w1) \<Rightarrow>
          (if container = None \<or> container = Some ''''
           then (Inr [TextContent ''text''
                   (''Unknown service: '' @ py_str (dict_get arguments ''service'' PNone))], w1)
           else (case subprocess_run
                        [PStr ''docker'', PStr ''logs'', PStr ''--tail'',
                         PStr (py_str (dict_get arguments ''lines'' (PInt 50))),
                         PStr (the container)] w1 of
                   (Inl e, w2) \<Rightarrow>
                     (Inr [TextContent ''text'' (''Error analyzing logs: '' @ exc_str e)], w2)
                 | (Inr result, w2) \<Rightarrow>
                     (Inr [TextContent ''text''
                        (''\<newline># Log Analysis for '' @ py_str (dict_get arguments ''service'' PNone) @ ''\<newline>''
                            @ ''\<newline>## Recent Logs ('' @ py_str (dict_get arguments ''lines'' (PInt 50)) @ '' lines)\<newline>''
                            @ stdout result @ ''\<newline>''
                            @ ''\<newline>## Error Output\<newline>''
                            @ (if stderr result \<noteq> '''' then stderr result else ''No errors'')
                            @ ''\<newline>''
                            @ ''\<newline>## Analysis\<newline>''
                            @ ''- Container: '' @ the container @ ''\<newline>''
                            @ ''- Lines analyzed: '' @ py_str (dict_get arguments ''lines'' (PInt 50)) @ ''\<newline>''
                            @ ''- Status: ''
                            @ (if returncode result = 0 then ''Healthy'' else ''Issues detected'')
                            @ ''\<newline>'')], w2))))"
  by (simp add: handle_call_tool_def Let_def try_except_def bind_io_def return_io_def
           split: prod.splits sum.splits option.splits)

subsection \<open>The primitives, and the branches on well-formed arguments\<close>

lemma fs_args_strs:
  "\<forall>s \<in> set argv. CHR 0x00 \<notin> set s \<Longrightarrow> fs_args (map PStr argv) = Inr argv"
  by (induction argv) simp_all

lemma subprocess_run_strs:
  assumes "\<forall>s \<in> set argv. CHR 0x00 \<notin> set s"
  shows "subprocess_run (map PStr argv) w
           = (proc_run w argv, w\<lparr>calls := calls w @ [Spawn argv]\<rparr>)"
  using fs_args_strs [OF assms] by (simp add: subprocess_run_def)



lemma container_map_get_str:
  "container_map_get (PStr s) w = (Inr (container_map s), w)"
  by (simp add: container_map_get_def return_io_def)



lemma container_map_nonempty: "container_map s \<noteq> Some ''''"
  by (simp add: container_map_def)

lemma container_map_no_nul: "container_map s = Some c \<Longrightarrow> CHR 0x00 \<notin> set c"
  by (auto simp: container_map_def split: if_splits)

lemma container_map_get_Some:
  assumes "container_map_get v w = (Inr (Some c), w1)"
  shows "c \<noteq> '''' \<and> w1 = w \<and> v = PStr (py_str v) \<and> container_map (py_str v) = Some c"
  using assms
  by (cases v)
     (auto simp: container_map_get_def return_io_def raise_io_def container_map_nonempty
           split: if_splits)

lemma str_int_50: "str_int 50 = ''50''"
  by (simp add: str_int_def str_nat.simps)



text \<open>The \<open>analyze_logs\<close> branch once the service is a key of the table.\<close>

lemma call_analyze_logs_known:
  assumes "arguments ''service'' = Some (PStr s)" and "container_map s = Some c"
  shows "handle_call_tool ''analyze_logs'' arguments w =
     (case subprocess_run
             [PStr ''docker'', PStr ''logs'', PStr ''--tail'',
              PStr (py_str (dict_get arguments ''lines'' (PInt 50))), PStr c] w of
        (Inl e, w') \<Rightarrow>
          (Inr [TextContent ''text'' (''Error analyzing logs: '' @ exc_str e)], w')
      | (Inr result, w') \<Rightarrow>
          (Inr [TextContent ''text''
                  (analysis (PStr s) (dict_get arguments ''lines'' (PInt 50)) c result)], w'))"
proof -
  have ne: "c \<noteq> ''''"
    using assms(2) container_map_nonempty [of s] by auto
  have svc: "dict_get arguments ''service'' PNone = PStr s"
    using assms(1) by (simp add: dict_get_def)
  show ?thesis
    using assms(2) ne
    by (simp add: call_analyze_logs svc container_map_get_str split: prod.splits sum.splits)
qed

lemma docker_logs_run:
  assumes "CHR 0x00 \<notin> set n" and "container_map s = Some c"
  shows "subprocess_run [PStr ''docker'', PStr ''logs'', PStr ''--tail'', PStr n, PStr c] w
      = (proc_run w [''docker'', ''logs'', ''--tail'', n, c],
         w\<lparr>calls := calls w @ [Spawn [''docker'', ''logs'', ''--tail'', n, c]]\<rparr>)"
  using assms(1) container_map_no_nul [OF assms(2)]
        subprocess_run_strs [of "[''docker'', ''logs'', ''--tail'', n, c]" w]
  by simp


lemma call_get_project_status_read:
  assumes "fs_read w claude_md = Inr doc"
  shows "handle_call_tool ''get_project_status'' arguments w =
     (case proc_run w docker_ps of
        Inl e \<Rightarrow> Inr [TextContent ''text'' (''Error getting project status: '' @ exc_str e)]
      | Inr docker_status \<Rightarrow> Inr [TextContent ''text'' (status_report (stdout docker_status))],
      w\<lparr>calls := calls w @ [Open claude_md, Spawn docker_ps]\<rparr>)"
proof -
  have run: "subprocess_run (map PStr docker_ps) (w\<lparr>calls := calls w @ [Open claude_md]\<rparr>)
      = (proc_run w docker_ps, w\<lparr>calls := calls w @ [Open claude_md, Spawn docker_ps]\<rparr>)"
    using subprocess_run_strs [of docker_ps "w\<lparr>calls := calls w @ [Open claude_md]\<rparr>"]
    by simp
  have rd: "open_read claude_md w = (Inr doc, w\<lparr>calls := calls w @ [Open claude_md]\<rparr>)"
    using assms by (simp add: open_read_def)
  show ?thesis
    unfolding call_get_project_status rd
    using run by (simp split: sum.splits)
qed

text \<open>
  The command of \<open>query_db\<close> when the query is missing: whatever the database argument
  is, the conversion of the list raises and the world is unchanged.
\<close>

lemma query_db_cmd_without_query:
  assumes "arguments ''query'' = None"
  shows "\<exists>e. subprocess_run (query_db_cmd arguments) w = (Inl e, w)"
proof -
  have q: "dict_get arguments ''query'' PNone = PNone"
    using assms by (simp add: dict_get_def)
  show ?thesis
    by (cases "dict_get arguments ''database'' (PStr ''intellaccdb'')")
       (simp_all add: subprocess_run_def q)
qed

lemma query_db_cmd_without_query_str:
  assumes "arguments ''query'' = None"
      and "dict_get arguments ''database'' (PStr ''intellaccdb'') = PStr d"
      and "CHR 0x00 \<notin> set d"
  shows "subprocess_run (query_db_cmd arguments) w =
     (Inl (PyException ''TypeError''
             ''expected str, bytes or os.PathLike object, not NoneType''), w)"
proof -
  have q: "dict_get arguments ''query'' PNone = PNone"
    using assms(1) by (simp add: dict_get_def)
  show ?thesis
    using assms(3) by (simp add: subprocess_run_def q assms(2))
qed

lemma query_db_cmd_strs:
  assumes "dict_get arguments ''database'' (PStr ''intellaccdb'') = PStr d"
      and "arguments ''query'' = Some (PStr q)"
      and "CHR 0x00 \<notin> set d" and "CHR 0x00 \<notin> set q"
  shows "subprocess_run (query_db_cmd arguments) w =
     (proc_run w [''docker'', ''exec'', ''intellacc_db'', ''psql'', ''-U'', ''intellacc_user'',
                  ''-d'', d, ''-c'', q],
      w\<lparr>calls := calls w @ [Spawn [''docker'', ''exec'', ''intellacc_db'', ''psql'', ''-U'',
                                    ''intellacc_user'', ''-d'', d, ''-c'', q]]\<rparr>)"
  using assms by (simp add: subprocess_run_def dict_get_def)

lemma call_tool_returns_text:
  "\<exists>t. fst (handle_call_tool name arguments w) = Inr [TextContent ''text'' t]"
proof -
  consider "name = ''query_db''" | "name = ''get_project_status''" | "name = ''analyze_logs''"
    | "name \<noteq> ''query_db''" "name \<noteq> ''get_project_status''" "name \<noteq> ''analyze_logs''"
    by blast
  then show ?thesis
  proof cases
    case 1
    then show ?thesis
      by (simp add: call_query_db split: prod.splits sum.splits)
  next
    case 2
    then show ?thesis
      by (simp add: call_get_project_status split: prod.splits sum.splits)
  next
    case 3
    then show ?thesis
      by (simp add: call_analyze_logs split: prod.splits sum.splits)
  next
    case 4
    then show ?thesis
      by (simp add: call_unknown)
  qed
qed

subsection \<open>Unknown tools\<close>

text \<open>
  Claim C2. A tool name other than \<open>query_db\<close>, \<open>get_project_status\<close> and
  \<open>analyze_logs\<close> yields the single text \<open>Unknown tool: {name}\<close>, whatever the
  arguments are, and the world is returned as it was: nothing is read, nothing is run,
  nothing is added to the log of external calls.
\<close>

theorem unknown_tool:
  assumes "name \<notin> {''query_db'', ''get_project_status'', ''analyze_logs''}"
  shows "handle_call_tool name arguments w =
           (Inr [TextContent ''text'' (''Unknown tool: '' @ name)], w)"
  using assms by (simp add: call_unknown)

theorem unknown_tool_witness:
  "''drop_db'' \<notin> {''query_db'', ''get_project_status'', ''analyze_logs''}
   \<and> handle_call_tool ''drop_db'' (map_of [(''query'', PStr ''select 1'')])
         (stub_world (Inr ''notes'') (Inr \<lparr>returncode = 0, stdout = ''ok'', stderr = ''''\<rparr>))
       = (Inr [TextContent ''text'' ''Unknown tool: drop_db''],
          stub_world (Inr ''notes'') (Inr \<lparr>returncode = 0, stdout = ''ok'', stderr = ''''\<rparr>))"
  using unknown_tool [of "''drop_db''" "map_of [(''query'', PStr ''select 1'')]"
          "stub_world (Inr ''notes'') (Inr \<lparr>returncode = 0, stdout = ''ok'', stderr = ''''\<rparr>)"]
  by simp

subsection \<open>Unknown services\<close>



text \<open>
  Claim C10. When the argument dictionary has no \<open>service\<close> key, \<open>analyze_logs\<close>
  reads the argument as \<open>None\<close>, finds no container for it and returns exactly
  \<open>Unknown service: None\<close>; the world is unchanged, so no external call is made.
\<close>

theorem analyze_logs_without_service:
  assumes "arguments ''service'' = None"
  shows "handle_call_tool ''analyze_logs'' arguments w =
           (Inr [TextContent ''text'' ''Unknown service: None''], w)"
  using assms
  by (simp add: call_analyze_logs dict_get_def container_map_get_def return_io_def)

theorem analyze_logs_without_service_witness:
  "map_of [(''lines'', PInt 10)] ''service'' = None
   \<and> handle_call_tool ''analyze_logs'' (map_of [(''lines'', PInt 10)])
         (stub_world (Inr ''notes'') (Inr \<lparr>returncode = 0, stdout = ''ok'', stderr = ''''\<rparr>))
       = (Inr [TextContent ''text'' ''Unknown service: None''],
          stub_world (Inr ''notes'') (Inr \<lparr>returncode = 0, stdout = ''ok'', stderr = ''''\<rparr>))"
  using analyze_logs_without_service [of "map_of [(''lines'', PInt 10)]"
          "stub_world (Inr ''notes'') (Inr \<lparr>returncode = 0, stdout = ''ok'', stderr = ''''\<rparr>)"]
  by simp

subsection \<open>Database queries\<close>

text \<open>
  Claim C4. Whenever the command of \<open>query_db\<close> runs to completion, that is
  \<open>subprocess.run\<close> returns a completed process: with exit status zero the result text is
  \<open>Query executed successfully:\<close>, an empty line, and the captured standard output; with
  a nonzero exit status it is \<open>Query failed:\<close>, a line break, and the captured standard
  error.
\<close>

theorem query_db_completed:
  assumes "subprocess_run (query_db_cmd arguments) w = (Inr result, w')"
  shows "(returncode result = 0 \<longrightarrow>
            handle_call_tool ''query_db'' arguments w =
              (Inr [TextContent ''text''
                      (''Query executed successfully:\<newline>\<newline>'' @ stdout result)], w'))
       \<and> (returncode result \<noteq> 0 \<longrightarrow>
            handle_call_tool ''query_db'' arguments w =
              (Inr [TextContent ''text'' (''Query failed:\<newline>'' @ stderr result)], w'))"
  using assms by (simp add: call_query_db)

theorem query_db_completed_witness:
  "subprocess_run (query_db_cmd (map_of [(''query'', PStr ''SELECT 1'')]))
       (stub_world (Inr ''notes'') (Inr \<lparr>returncode = 0, stdout = ''rows: 3'', stderr = ''''\<rparr>))
     = (Inr \<lparr>returncode = 0, stdout = ''rows: 3'', stderr = ''''\<rparr>,
        (stub_world (Inr ''notes'') (Inr \<lparr>returncode = 0, stdout = ''rows: 3'', stderr = ''''\<rparr>))
          \<lparr>calls := [Spawn [''docker'', ''exec'', ''intellacc_db'', ''psql'', ''-U'',
                            ''intellacc_user'', ''-d'', ''intellaccdb'', ''-c'', ''SELECT 1'']]\<rparr>)
   \<and> fst (handle_call_tool ''query_db'' (map_of [(''query'', PStr ''SELECT 1'')])
         (stub_world (Inr ''notes'') (Inr \<lparr>returncode = 0, stdout = ''rows: 3'', stderr = ''''\<rparr>)))
     = Inr [TextContent ''text'' ''Query executed successfully:\<newline>\<newline>rows: 3'']
   \<and> subprocess_run (query_db_cmd (map_of [(''query'', PStr ''SELEC 1''), (''database'', PStr ''test'')]))
       (stub_world (Inr ''notes'') (Inr \<lparr>returncode = 1, stdout = '''', stderr = ''syntax error''\<rparr>))
     = (Inr \<lparr>returncode = 1, stdout = '''', stderr = ''syntax error''\<rparr>,
        (stub_world (Inr ''notes'') (Inr \<lparr>returncode = 1, stdout = '''', stderr = ''syntax error''\<rparr>))
          \<lparr>calls := [Spawn [''docker'', ''exec'', ''intellacc_db'', ''psql'', ''-U'',
                            ''intellacc_user'', ''-d'', ''test'', ''-c'', ''SELEC 1'']]\<rparr>)
   \<and> fst (handle_call_tool ''query_db'' (map_of [(''query'', PStr ''SELEC 1''), (''database'', PStr ''test'')])
         (stub_world (Inr ''notes'') (Inr \<lparr>returncode = 1, stdout = '''', stderr = ''syntax error''\<rparr>)))
     = Inr [TextContent ''text'' ''Query failed:\<newline>syntax error'']"
proof -
  let ?ok = "\<lparr>returncode = 0, stdout = ''rows: 3'', stderr = ''''\<rparr>"
  let ?bad = "\<lparr>returncode = 1, stdout = '''', stderr = ''syntax error''\<rparr>"
  let ?a1 = "map_of [(''query'', PStr ''SELECT 1'')]"
  let ?a2 = "map_of [(''query'', PStr ''SELEC 1''), (''database'', PStr ''test'')]"
  let ?w1 = "stub_world (Inr ''notes'') (Inr ?ok)"
  let ?w2 = "stub_world (Inr ''notes'') (Inr ?bad)"
  have r1: "subprocess_run (query_db_cmd ?a1) ?w1
      = (Inr ?ok, ?w1\<lparr>calls := [Spawn [''docker'', ''exec'', ''intellacc_db'', ''psql'', ''-U'',
                            ''intellacc_user'', ''-d'', ''intellaccdb'', ''-c'', ''SELECT 1'']]\<rparr>)"
    by (simp add: subprocess_run_def dict_get_def stub_world_def)
  have r2: "subprocess_run (query_db_cmd ?a2) ?w2
      = (Inr ?bad, ?w2\<lparr>calls := [Spawn [''docker'', ''exec'', ''intellacc_db'', ''psql'', ''-U'',
                            ''intellacc_user'', ''-d'', ''test'', ''-c'', ''SELEC 1'']]\<rparr>)"
    by (simp add: subprocess_run_def dict_get_def stub_world_def)
  show ?thesis
    using r1 r2 query_db_completed [OF r1] query_db_completed [OF r2] by simp
qed

subsection \<open>No fault leaves the dispatcher\<close>

text \<open>
  Claim C1. For every tool name, every argument dictionary and every world,
  \<open>handle_call_tool\<close> returns (it does not raise) a list of exactly one
  \<open>TextContent\<close> of type \<open>text\<close>. Every point of the three tool branches at which
  an exception can be raised (building or running the command of \<open>query_db\<close>; reading the
  project document or running \<open>docker ps\<close> in \<open>get_project_status\<close>; the table lookup
  or running \<open>docker logs\<close> in \<open>analyze_logs\<close>) lies inside the branch's
  \<open>try\<close>, and the exception \<open>e\<close> raised there is turned into the text
  \<open>Error executing query: \<close>, \<open>Error getting project status: \<close> or
  \<open>Error analyzing logs: \<close> followed by \<open>str(e)\<close>.
\<close>

theorem dispatch_never_raises:
  "(\<exists>t. fst (handle_call_tool name arguments w) = Inr [TextContent ''text'' t])
   \<and> (\<forall>e w'. subprocess_run (query_db_cmd arguments) w = (Inl e, w') \<longrightarrow>
         handle_call_tool ''query_db'' arguments w =
           (Inr [TextContent ''text'' (''Error executing query: '' @ exc_str e)], w'))
   \<and> (\<forall>e w'. open_read claude_md w = (Inl e, w') \<longrightarrow>
         handle_call_tool ''get_project_status'' arguments w =
           (Inr [TextContent ''text'' (''Error getting project status: '' @ exc_str e)], w'))
   \<and> (\<forall>doc w1 e w'. open_read claude_md w = (Inr doc, w1) \<longrightarrow>
         subprocess_run (map PStr docker_ps) w1 = (Inl e, w') \<longrightarrow>
         handle_call_tool ''get_project_status'' arguments w =
           (Inr [TextContent ''text'' (''Error getting project status: '' @ exc_str e)], w'))
   \<and> (\<forall>e w'. container_map_get (dict_get arguments ''service'' PNone) w = (Inl e, w') \<longrightarrow>
         handle_call_tool ''analyze_logs'' arguments w =
           (Inr [TextContent ''text'' (''Error analyzing logs: '' @ exc_str e)], w'))
   \<and> (\<forall>c w1 e w'. container_map_get (dict_get arguments ''service'' PNone) w = (Inr (Some c), w1) \<longrightarrow>
         subprocess_run [PStr ''docker'', PStr ''logs'', PStr ''--tail'',
                         PStr (py_str (dict_get arguments ''lines'' (PInt 50))), PStr c] w1
           = (Inl e, w') \<longrightarrow>
         handle_call_tool ''analyze_logs'' arguments w =
           (Inr [TextContent ''text'' (''Error analyzing logs: '' @ exc_str e)], w'))"
proof (intro conjI allI impI)
  show "\<exists>t. fst (handle_call_tool name arguments w) = Inr [TextContent ''text'' t]"
    by (rule call_tool_returns_text)
next
  fix e w'
  assume "subprocess_run (query_db_cmd arguments) w = (Inl e, w')"
  then show "handle_call_tool ''query_db'' arguments w =
           (Inr [TextContent ''text'' (''Error executing query: '' @ exc_str e)], w')"
    by (simp add: call_query_db)
next
  fix e w'
  assume "open_read claude_md w = (Inl e, w')"
  then show "handle_call_tool ''get_project_status'' arguments w =
           (Inr [TextContent ''text'' (''Error getting project status: '' @ exc_str e)], w')"
    by (simp add: call_get_project_status)
next
  fix doc w1 e w'
  assume "open_read claude_md w = (Inr doc, w1)"
     and "subprocess_run (map PStr docker_ps) w1 = (Inl e, w')"
  then show "handle_call_tool ''get_project_status'' arguments w =
           (Inr [TextContent ''text'' (''Error getting project status: '' @ exc_str e)], w')"
    by (simp add: call_get_project_status)
next
  fix e w'
  assume "container_map_get (dict_get arguments ''service'' PNone) w = (Inl e, w')"
  then show "handle_call_tool ''analyze_logs'' arguments w =
           (Inr [TextContent ''text'' (''Error analyzing logs: '' @ exc_str e)], w')"
    by (simp add: call_analyze_logs)
next
  fix c w1 e w'
  assume g: "container_map_get (dict_get arguments ''service'' PNone) w = (Inr (Some c), w1)"
     and r: "subprocess_run [PStr ''docker'', PStr ''logs'', PStr ''--tail'',
                         PStr (py_str (dict_get arguments ''lines'' (PInt 50))), PStr c] w1
           = (Inl e, w')"
  from g have "c \<noteq> ''''"
    by (simp add: container_map_get_Some)
  with g r show "handle_call_tool ''analyze_logs'' arguments w =
           (Inr [TextContent ''text'' (''Error analyzing logs: '' @ exc_str e)], w')"
    by (simp add: call_analyze_logs)
qed

theorem dispatch_never_raises_witness:
  "subprocess_run (query_db_cmd (map_of []))
       (stub_world (Inr ''notes'') (Inr \<lparr>returncode = 0, stdout = ''ok'', stderr = ''''\<rparr>))
     = (Inl (PyException ''TypeError'' ''expected str, bytes or os.PathLike object, not NoneType''),
        stub_world (Inr ''notes'') (Inr \<lparr>returncode = 0, stdout = ''ok'', stderr = ''''\<rparr>))
   \<and> handle_call_tool ''query_db'' (map_of [])
       (stub_world (Inr ''notes'') (Inr \<lparr>returncode = 0, stdout = ''ok'', stderr = ''''\<rparr>))
     = (Inr [TextContent ''text''
               ''Error executing query: expected str, bytes or os.PathLike object, not NoneType''],
        stub_world (Inr ''notes'') (Inr \<lparr>returncode = 0, stdout = ''ok'', stderr = ''''\<rparr>))
   \<and> open_read claude_md
       (stub_world (Inl (PyException ''FileNotFoundError'' ''No such file or directory''))
          (Inr \<lparr>returncode = 0, stdout = ''ok'', stderr = ''''\<rparr>))
     = (Inl (PyException ''FileNotFoundError'' ''No such file or directory''),
        (stub_world (Inl (PyException ''FileNotFoundError'' ''No such file or directory''))
          (Inr \<lparr>returncode = 0, stdout = ''ok'', stderr = ''''\<rparr>))\<lparr>calls := [Open claude_md]\<rparr>)
   \<and> fst (handle_call_tool ''get_project_status'' (map_of [])
       (stub_world (Inl (PyException ''FileNotFoundError'' ''No such file or directory''))
          (Inr \<lparr>returncode = 0, stdout = ''ok'', stderr = ''''\<rparr>)))
     = Inr [TextContent ''text'' ''Error getting project status: No such file or directory'']
   \<and> open_read claude_md
       (stub_world (Inr ''notes'') (Inl (PyException ''FileNotFoundError'' ''docker not found'')))
     = (Inr ''notes'',
        (stub_world (Inr ''notes'') (Inl (PyException ''FileNotFoundError'' ''docker not found'')))
          \<lparr>calls := [Open claude_md]\<rparr>)
   \<and> subprocess_run (map PStr docker_ps)
       ((stub_world (Inr ''notes'') (Inl (PyException ''FileNotFoundError'' ''docker not found'')))
          \<lparr>calls := [Open claude_md]\<rparr>)
     = (Inl (PyException ''FileNotFoundError'' ''docker not found''),
        (stub_world (Inr ''notes'') (Inl (PyException ''FileNotFoundError'' ''docker not found'')))
          \<lparr>calls := [Open claude_md, Spawn docker_ps]\<rparr>)
   \<and> fst (handle_call_tool ''get_project_status'' (map_of [])
       (stub_world (Inr ''notes'') (Inl (PyException ''FileNotFoundError'' ''docker not found''))))
     = Inr [TextContent ''text'' ''Error getting project status: docker not found'']
   \<and> container_map_get (dict_get (map_of [(''service'', PList ''[]'')]) ''service'' PNone)
       (stub_world (Inr ''notes'') (Inr \<lparr>returncode = 0, stdout = ''ok'', stderr = ''''\<rparr>))
     = (Inl (PyException ''TypeError'' (''unhashable type: '' @ [CHR 0x27] @ ''list'' @ [CHR 0x27])),
        stub_world (Inr ''notes'') (Inr \<lparr>returncode = 0, stdout = ''ok'', stderr = ''''\<rparr>))
   \<and> fst (handle_call_tool ''analyze_logs'' (map_of [(''service'', PList ''[]'')])
       (stub_world (Inr ''notes'') (Inr \<lparr>returncode = 0, stdout = ''ok'', stderr = ''''\<rparr>)))
     = Inr [TextContent ''text''
             (''Error analyzing logs: unhashable type: '' @ [CHR 0x27] @ ''list'' @ [CHR 0x27])]
   \<and> container_map_get (dict_get (map_of [(''service'', PStr ''db''), (''lines'', PStr ''all'')]) ''service'' PNone)
       (stub_world (Inr ''notes'') (Inl (PyException ''FileNotFoundError'' ''docker not found'')))
     = (Inr (Some ''intellacc_db''),
        stub_world (Inr ''notes'') (Inl (PyException ''FileNotFoundError'' ''docker not found'')))
   \<and> subprocess_run [PStr ''docker'', PStr ''logs'', PStr ''--tail'',
         PStr (py_str (dict_get (map_of [(''service'', PStr ''db''), (''lines'', PStr ''all'')])
                          ''lines'' (PInt 50))),
         PStr ''intellacc_db'']
       (stub_world (Inr ''notes'') (Inl (PyException ''FileNotFoundError'' ''docker not found'')))
     = (Inl (PyException ''FileNotFoundError'' ''docker not found''),
        (stub_world (Inr ''notes'') (Inl (PyException ''FileNotFoundError'' ''docker not found'')))
          \<lparr>calls := [Spawn [''docker'', ''logs'', ''--tail'', ''all'', ''intellacc_db'']]\<rparr>)
   \<and> fst (handle_call_tool ''analyze_logs'' (map_of [(''service'', PStr ''db''), (''lines'', PStr ''all'')])
       (stub_world (Inr ''notes'') (Inl (PyException ''FileNotFoundError'' ''docker not found''))))
     = Inr [TextContent ''text'' ''Error analyzing logs: docker not found'']"
proof -
  let ?ok = "Inr \<lparr>returncode = 0, stdout = ''ok'', stderr = ''''\<rparr> :: exception + completed_process"
  let ?nodocker = "Inl (PyException ''FileNotFoundError'' ''docker not found'') :: exception + completed_process"
  let ?w0 = "stub_world (Inr ''notes'') ?ok"
  let ?w1 = "stub_world (Inl (PyException ''FileNotFoundError'' ''No such file or directory'')) ?ok"
  let ?w2 = "stub_world (Inr ''notes'') ?nodocker"
  let ?a4 = "map_of [(''service'', PList ''[]'')]"
  let ?a5 = "map_of [(''service'', PStr ''db''), (''lines'', PStr ''all'')]"
  have h1: "subprocess_run (query_db_cmd (map_of [])) ?w0
     = (Inl (PyException ''TypeError'' ''expected str, bytes or os.PathLike object, not NoneType''), ?w0)"
    by (simp add: subprocess_run_def dict_get_def)
  have h2: "open_read claude_md ?w1
     = (Inl (PyException ''FileNotFoundError'' ''No such file or directory''),
        ?w1\<lparr>calls := [Open claude_md]\<rparr>)"
    by (simp add: open_read_def stub_world_def)
  have h3a: "open_read claude_md ?w2 = (Inr ''notes'', ?w2\<lparr>calls := [Open claude_md]\<rparr>)"
    by (simp add: open_read_def stub_world_def)
  have h3b: "subprocess_run (map PStr docker_ps) (?w2\<lparr>calls := [Open claude_md]\<rparr>)
     = (?nodocker, ?w2\<lparr>calls := [Open claude_md, Spawn docker_ps]\<rparr>)"
    by (simp add: subprocess_run_def stub_world_def)
  have h4: "container_map_get (dict_get ?a4 ''service'' PNone) ?w0
     = (Inl (PyException ''TypeError'' (''unhashable type: '' @ [CHR 0x27] @ ''list'' @ [CHR 0x27])), ?w0)"
    by (simp add: container_map_get_def raise_io_def dict_get_def)
  have h5a: "container_map_get (dict_get ?a5 ''service'' PNone) ?w2 = (Inr (Some ''intellacc_db''), ?w2)"
    by (simp add: container_map_get_def return_io_def dict_get_def container_map_def)
  have h5b: "subprocess_run [PStr ''docker'', PStr ''logs'', PStr ''--tail'',
         PStr (py_str (dict_get ?a5 ''lines'' (PInt 50))), PStr ''intellacc_db''] ?w2
     = (?nodocker, ?w2\<lparr>calls := [Spawn [''docker'', ''logs'', ''--tail'', ''all'', ''intellacc_db'']]\<rparr>)"
    by (simp add: subprocess_run_def stub_world_def dict_get_def)
  note t0 = dispatch_never_raises [of "''query_db''" "map_of []" ?w0]
  note t1 = dispatch_never_raises [of "''get_project_status''" "map_of []" ?w1]
  note t2 = dispatch_never_raises [of "''get_project_status''" "map_of []" ?w2]
  note t4 = dispatch_never_raises [of "''analyze_logs''" ?a4 ?w0]
  note t5 = dispatch_never_raises [of "''analyze_logs''" ?a5 ?w2]
  have c1: "handle_call_tool ''query_db'' (map_of []) ?w0
     = (Inr [TextContent ''text''
               ''Error executing query: expected str, bytes or os.PathLike object, not NoneType''], ?w0)"
    using t0 h1 by simp
  have c2: "fst (handle_call_tool ''get_project_status'' (map_of []) ?w1)
     = Inr [TextContent ''text'' ''Error getting project status: No such file or directory'']"
    using t1 h2 by simp
  have c3: "fst (handle_call_tool ''get_project_status'' (map_of []) ?w2)
     = Inr [TextContent ''text'' ''Error getting project status: docker not found'']"
    using t2 h3a h3b by simp
  have c4: "fst (handle_call_tool ''analyze_logs'' ?a4 ?w0)
     = Inr [TextContent ''text''
             (''Error analyzing logs: unhashable type: '' @ [CHR 0x27] @ ''list'' @ [CHR 0x27])]"
    using t4 h4 by simp
  have c5: "fst (handle_call_tool ''analyze_logs'' ?a5 ?w2)
     = Inr [TextContent ''text'' ''Error analyzing logs: docker not found'']"
    using t5 h5a h5b by simp
  show ?thesis
    using h1 h2 h3a h3b h4 h5a h5b c1 c2 c3 c4 c5 by (intro conjI)
qed

subsection \<open>Log analysis\<close>



subsection \<open>A query without a query\<close>

text \<open>
  Claim C7, as the code has it. When \<open>query_db\<close> is called without a \<open>query\<close>
  argument, nothing is validated: the last element of the command list handed to
  \<open>subprocess.run\<close> is \<open>None\<close>. \<open>subprocess.run\<close> rejects that list while it converts
  it, before it starts any process, so the world is unchanged and no external command
  receives anything; the result is the text \<open>Error executing query: \<close> followed by the
  description of the exception raised. When the database argument is omitted, or is a
  string without a NUL character, the exception is the one raised for the \<open>None\<close> and the
  description reads \<open>expected str, bytes or os.PathLike object, not NoneType\<close>.
\<close>

theorem query_db_without_query:
  assumes "arguments ''query'' = None"
  shows "dict_get arguments ''query'' PNone = PNone
     \<and> (\<exists>e. subprocess_run (query_db_cmd arguments) w = (Inl e, w)
            \<and> handle_call_tool ''query_db'' arguments w =
                (Inr [TextContent ''text'' (''Error executing query: '' @ exc_str e)], w))
     \<and> (arguments ''database'' = None
          \<or> (\<exists>d. arguments ''database'' = Some (PStr d) \<and> CHR 0x00 \<notin> set d) \<longrightarrow>
          handle_call_tool ''query_db'' arguments w =
            (Inr [TextContent ''text''
               ''Error executing query: expected str, bytes or os.PathLike object, not NoneType''],
             w))"
proof (intro conjI impI)
  show "dict_get arguments ''query'' PNone = PNone"
    using assms by (simp add: dict_get_def)
next
  from query_db_cmd_without_query [of arguments w, OF assms]
  obtain e where "subprocess_run (query_db_cmd arguments) w = (Inl e, w)"
    by blast
  then show "\<exists>e. subprocess_run (query_db_cmd arguments) w = (Inl e, w)
            \<and> handle_call_tool ''query_db'' arguments w =
                (Inr [TextContent ''text'' (''Error executing query: '' @ exc_str e)], w)"
    by (simp add: call_query_db)
next
  assume "arguments ''database'' = None
          \<or> (\<exists>d. arguments ''database'' = Some (PStr d) \<and> CHR 0x00 \<notin> set d)"
  then obtain d where d: "dict_get arguments ''database'' (PStr ''intellaccdb'') = PStr d"
      and n: "CHR 0x00 \<notin> set d"
    by (auto simp: dict_get_def)
  have "subprocess_run (query_db_cmd arguments) w =
      (Inl (PyException ''TypeError''
              ''expected str, bytes or os.PathLike object, not NoneType''), w)"
    by (rule query_db_cmd_without_query_str [OF assms d n])
  then show "handle_call_tool ''query_db'' arguments w =
            (Inr [TextContent ''text''
               ''Error executing query: expected str, bytes or os.PathLike object, not NoneType''],
             w)"
    by (simp add: call_query_db)
qed

theorem query_db_without_query_witness:
  "map_of [(''database'', PStr ''analytics'')] ''query'' = None
   \<and> dict_get (map_of [(''database'', PStr ''analytics'')]) ''query'' PNone = PNone
   \<and> map_of [(''database'', PStr ''analytics'')] ''database'' = Some (PStr ''analytics'')
   \<and> CHR 0x00 \<notin> set ''analytics''
   \<and> handle_call_tool ''query_db'' (map_of [(''database'', PStr ''analytics'')])
         (stub_world (Inr ''notes'') (Inr \<lparr>returncode = 0, stdout = ''ok'', stderr = ''''\<rparr>))
       = (Inr [TextContent ''text''
                 ''Error executing query: expected str, bytes or os.PathLike object, not NoneType''],
          stub_world (Inr ''notes'') (Inr \<lparr>returncode = 0, stdout = ''ok'', stderr = ''''\<rparr>))"
  using query_db_without_query
          [of "map_of [(''database'', PStr ''analytics'')]"
              "stub_world (Inr ''notes'') (Inr \<lparr>returncode = 0, stdout = ''ok'', stderr = ''''\<rparr>)"]
  by (simp add: dict_get_def)

text \<open>
  The claim as worded (the external command receives an empty query) fails on a call
  that has a database but no query: no command is run at all.
\<close>

theorem query_db_without_query_counterexample:
  "map_of [(''database'', PStr ''intellaccdb'')] ''query'' = None
   \<and> handle_call_tool ''query_db'' (map_of [(''database'', PStr ''intellaccdb'')])
         (stub_world (Inr ''notes'') (Inr \<lparr>returncode = 0, stdout = ''ok'', stderr = ''''\<rparr>))
       = (Inr [TextContent ''text''
                 ''Error executing query: expected str, bytes or os.PathLike object, not NoneType''],
          stub_world (Inr ''notes'') (Inr \<lparr>returncode = 0, stdout = ''ok'', stderr = ''''\<rparr>))
   \<and> calls (snd (handle_call_tool ''query_db'' (map_of [(''database'', PStr ''intellaccdb'')])
         (stub_world (Inr ''notes'') (Inr \<lparr>returncode = 0, stdout = ''ok'', stderr = ''''\<rparr>))))
       = []"
  by (simp add: call_query_db subprocess_run_def dict_get_def stub_world_def)

subsection \<open>The project status report\<close>

text \<open>
  Claim C8. Take two runs of \<open>get_project_status\<close> in which reading the project
  document succeeds, with any two document texts and any two argument dictionaries. If
  \<open>docker ps\<close> answers the same in both, the two results are the same. If it completes
  in both with the same standard output, both results are the report \<open>status_report\<close>
  of that output: the container table between fixed blocks of text, with nothing of the
  document in it.
\<close>

theorem project_status_ignores_document:
  assumes "fs_read w1 claude_md = Inr doc1" and "fs_read w2 claude_md = Inr doc2"
  shows "(proc_run w1 docker_ps = proc_run w2 docker_ps \<longrightarrow>
            fst (handle_call_tool ''get_project_status'' arguments1 w1)
              = fst (handle_call_tool ''get_project_status'' arguments2 w2))
       \<and> (\<forall>r1 r2. proc_run w1 docker_ps = Inr r1 \<longrightarrow> proc_run w2 docker_ps = Inr r2 \<longrightarrow>
            stdout r1 = stdout r2 \<longrightarrow>
              fst (handle_call_tool ''get_project_status'' arguments1 w1)
                = Inr [TextContent ''text'' (status_report (stdout r1))]
            \<and> fst (handle_call_tool ''get_project_status'' arguments2 w2)
                = Inr [TextContent ''text'' (status_report (stdout r1))])"
  by (simp add: call_get_project_status_read [of w1, OF assms(1)]
                call_get_project_status_read [of w2, OF assms(2)])

theorem project_status_ignores_document_witness:
  "fs_read (stub_world (Inr ''# Notes, first version'')
              (Inr \<lparr>returncode = 0, stdout = ''NAMES'', stderr = ''''\<rparr>)) claude_md
     = Inr ''# Notes, first version''
   \<and> fs_read (stub_world (Inr ''Something else entirely'')
              (Inr \<lparr>returncode = 0, stdout = ''NAMES'', stderr = ''''\<rparr>)) claude_md
     = Inr ''Something else entirely''
   \<and> ''# Notes, first version'' \<noteq> ''Something else entirely''
   \<and> proc_run (stub_world (Inr ''# Notes, first version'')
              (Inr \<lparr>returncode = 0, stdout = ''NAMES'', stderr = ''''\<rparr>)) docker_ps
     = proc_run (stub_world (Inr ''Something else entirely'')
              (Inr \<lparr>returncode = 0, stdout = ''NAMES'', stderr = ''''\<rparr>)) docker_ps
   \<and> fst (handle_call_tool ''get_project_status'' (map_of [])
            (stub_world (Inr ''# Notes, first version'')
              (Inr \<lparr>returncode = 0, stdout = ''NAMES'', stderr = ''''\<rparr>)))
     = fst (handle_call_tool ''get_project_status'' (map_of [])
            (stub_world (Inr ''Something else entirely'')
              (Inr \<lparr>returncode = 0, stdout = ''NAMES'', stderr = ''''\<rparr>)))
   \<and> fst (handle_call_tool ''get_project_status'' (map_of [])
            (stub_world (Inr ''# Notes, first version'')
              (Inr \<lparr>returncode = 0, stdout = ''NAMES'', stderr = ''''\<rparr>)))
     = Inr [TextContent ''text'' (status_report ''NAMES'')]"
proof -
  let ?r = "\<lparr>returncode = 0, stdout = ''NAMES'', stderr = ''''\<rparr>"
  let ?w1 = "stub_world (Inr ''# Notes, first version'') (Inr ?r)"
  let ?w2 = "stub_world (Inr ''Something else entirely'') (Inr ?r)"
  have r1: "fs_read ?w1 claude_md = Inr ''# Notes, first version''"
    by (simp add: stub_world_def)
  have r2: "fs_read ?w2 claude_md = Inr ''Something else entirely''"
    by (simp add: stub_world_def)
  have p1: "proc_run ?w1 docker_ps = Inr ?r" and p2: "proc_run ?w2 docker_ps = Inr ?r"
    by (simp_all add: stub_world_def)
  note t = project_status_ignores_document [OF r1 r2, of "map_of []" "map_of []"]
  have e: "fst (handle_call_tool ''get_project_status'' (map_of []) ?w1)
         = fst (handle_call_tool ''get_project_status'' (map_of []) ?w2)"
    using t p1 p2 by simp
  have v: "fst (handle_call_tool ''get_project_status'' (map_of []) ?w1)
         = Inr [TextContent ''text'' (status_report ''NAMES'')]"
    using t p1 p2 by simp
  show ?thesis
    using r1 r2 p1 p2 e v by simp
qed

subsection \<open>Missing arguments\<close>

text \<open>
  Claim C6. A call of a known tool always returns one text and never raises, whatever
  arguments are missing. A missing required argument ends in a text that says what went
  wrong: without \<open>query\<close>, \<open>query_db\<close> returns \<open>Error executing query: \<close> and
  a description, and without \<open>service\<close>, \<open>analyze_logs\<close> returns
  \<open>Unknown service: None\<close>; in both cases the world is unchanged. A missing optional
  argument takes its documented default: a call without \<open>database\<close> is the call with
  \<open>database = intellaccdb\<close>, and a call without \<open>lines\<close> is the call with
  \<open>lines = 50\<close>. Accordingly, without \<open>database\<close> the command run for a query
  that can be passed to a process (it has no NUL character) is
  \<open>psql ... -d intellaccdb -c {query}\<close>, and without \<open>lines\<close> the command run for a
  known service is \<open>docker logs --tail 50 {container}\<close>.
\<close>

theorem missing_arguments:
  "(name \<in> {''query_db'', ''get_project_status'', ''analyze_logs''} \<longrightarrow>
      (\<exists>t. fst (handle_call_tool name arguments w) = Inr [TextContent ''text'' t]))
   \<and> (arguments ''query'' = None \<longrightarrow>
      (\<exists>d. handle_call_tool ''query_db'' arguments w =
              (Inr [TextContent ''text'' (''Error executing query: '' @ d)], w)))
   \<and> (arguments ''service'' = None \<longrightarrow>
        handle_call_tool ''analyze_logs'' arguments w =
          (Inr [TextContent ''text'' ''Unknown service: None''], w))
   \<and> (arguments ''database'' = None \<longrightarrow>
        handle_call_tool ''query_db'' arguments w =
          handle_call_tool ''query_db'' (arguments(''database'' \<mapsto> PStr ''intellaccdb'')) w)
   \<and> (arguments ''lines'' = None \<longrightarrow>
        handle_call_tool ''analyze_logs'' arguments w =
          handle_call_tool ''analyze_logs'' (arguments(''lines'' \<mapsto> PInt 50)) w)
   \<and> (arguments ''database'' = None \<longrightarrow> arguments ''query'' = Some (PStr q) \<longrightarrow>
      CHR 0x00 \<notin> set q \<longrightarrow>
        calls (snd (handle_call_tool ''query_db'' arguments w)) =
          calls w @ [Spawn [''docker'', ''exec'', ''intellacc_db'', ''psql'', ''-U'',
                            ''intellacc_user'', ''-d'', ''intellaccdb'', ''-c'', q]])
   \<and> (arguments ''lines'' = None \<longrightarrow> arguments ''service'' = Some (PStr s) \<longrightarrow>
      container_map s = Some c \<longrightarrow>
        calls (snd (handle_call_tool ''analyze_logs'' arguments w)) =
          calls w @ [Spawn [''docker'', ''logs'', ''--tail'', ''50'', c]])"
proof (intro conjI impI)
  show "\<exists>t. fst (handle_call_tool name arguments w) = Inr [TextContent ''text'' t]"
    by (rule call_tool_returns_text)
next
  assume "arguments ''query'' = None"
  then obtain e where "subprocess_run (query_db_cmd arguments) w = (Inl e, w)"
    using query_db_cmd_without_query [of arguments w] by blast
  then show "\<exists>d. handle_call_tool ''query_db'' arguments w =
              (Inr [TextContent ''text'' (''Error executing query: '' @ d)], w)"
    by (simp add: call_query_db)
next
  assume "arguments ''service'' = None"
  then show "handle_call_tool ''analyze_logs'' arguments w =
          (Inr [TextContent ''text'' ''Unknown service: None''], w)"
    by (simp add: call_analyze_logs dict_get_def container_map_get_def return_io_def)
next
  assume "arguments ''database'' = None"
  then show "handle_call_tool ''query_db'' arguments w =
          handle_call_tool ''query_db'' (arguments(''database'' \<mapsto> PStr ''intellaccdb'')) w"
    by (simp add: call_query_db dict_get_def)
next
  assume n: "arguments ''lines'' = None"
  have e1: "dict_get (arguments(''lines'' \<mapsto> PInt 50)) ''service'' PNone
          = dict_get arguments ''service'' PNone"
    by (simp add: dict_get_def)
  have e2: "dict_get (arguments(''lines'' \<mapsto> PInt 50)) ''lines'' (PInt 50)
          = dict_get arguments ''lines'' (PInt 50)"
    using n by (simp add: dict_get_def)
  show "handle_call_tool ''analyze_logs'' arguments w =
          handle_call_tool ''analyze_logs'' (arguments(''lines'' \<mapsto> PInt 50)) w"
    by (simp only: call_analyze_logs e1 e2)
next
  assume "arguments ''database'' = None" and q: "arguments ''query'' = Some (PStr q)"
     and z: "CHR 0x00 \<notin> set q"
  then have d: "dict_get arguments ''database'' (PStr ''intellaccdb'') = PStr ''intellaccdb''"
    by (simp add: dict_get_def)
  have "CHR 0x00 \<notin> set ''intellaccdb''"
    by simp
  from query_db_cmd_strs [of arguments "''intellaccdb''" q w, OF d q this z]
  show "calls (snd (handle_call_tool ''query_db'' arguments w)) =
          calls w @ [Spawn [''docker'', ''exec'', ''intellacc_db'', ''psql'', ''-U'',
                            ''intellacc_user'', ''-d'', ''intellaccdb'', ''-c'', q]]"
    by (simp add: call_query_db split: sum.splits)
next
  assume "arguments ''lines'' = None" and s: "arguments ''service'' = Some (PStr s)"
     and c: "container_map s = Some c"
  then have n: "py_str (dict_get arguments ''lines'' (PInt 50)) = ''50''"
    by (simp add: dict_get_def str_int_50)
  have z: "CHR 0x00 \<notin> set ''50''"
    by simp
  from docker_logs_run [of "''50''" s c w, OF z c]
  show "calls (snd (handle_call_tool ''analyze_logs'' arguments w)) =
          calls w @ [Spawn [''docker'', ''logs'', ''--tail'', ''50'', c]]"
    using call_analyze_logs_known [of arguments s c w, OF s c, unfolded n]
    by (simp split: sum.splits)
qed

theorem missing_arguments_witness:
  "''query_db'' \<in> {''query_db'', ''get_project_status'', ''analyze_logs''}
   \<and> (\<exists>t. fst (handle_call_tool ''query_db'' (map_of [])
                  (stub_world (Inr ''notes'') (Inr \<lparr>returncode = 0, stdout = ''ok'', stderr = ''''\<rparr>)))
             = Inr [TextContent ''text'' t])
   \<and> map_of [] ''query'' = (None :: pyval option)
   \<and> (\<exists>d. handle_call_tool ''query_db'' (map_of [])
              (stub_world (Inr ''notes'') (Inr \<lparr>returncode = 0, stdout = ''ok'', stderr = ''''\<rparr>))
            = (Inr [TextContent ''text'' (''Error executing query: '' @ d)],
               stub_world (Inr ''notes'') (Inr \<lparr>returncode = 0, stdout = ''ok'', stderr = ''''\<rparr>)))
   \<and> map_of [] ''service'' = (None :: pyval option)
   \<and> handle_call_tool ''analyze_logs'' (map_of [])
         (stub_world (Inr ''notes'') (Inr \<lparr>returncode = 0, stdout = ''ok'', stderr = ''''\<rparr>))
       = (Inr [TextContent ''text'' ''Unknown service: None''],
          stub_world (Inr ''notes'') (Inr \<lparr>returncode = 0, stdout = ''ok'', stderr = ''''\<rparr>))
   \<and> map_of [(''query'', PStr ''SELECT 1'')] ''database'' = None
   \<and> map_of [(''query'', PStr ''SELECT 1'')] ''query'' = Some (PStr ''SELECT 1'')
   \<and> CHR 0x00 \<notin> set ''SELECT 1''
   \<and> handle_call_tool ''query_db'' (map_of [(''query'', PStr ''SELECT 1'')])
         (stub_world (Inr ''notes'') (Inr \<lparr>returncode = 0, stdout = ''ok'', stderr = ''''\<rparr>))
       = handle_call_tool ''query_db''
           ((map_of [(''query'', PStr ''SELECT 1'')])(''database'' \<mapsto> PStr ''intellaccdb''))
           (stub_world (Inr ''notes'') (Inr \<lparr>returncode = 0, stdout = ''ok'', stderr = ''''\<rparr>))
   \<and> calls (snd (handle_call_tool ''query_db'' (map_of [(''query'', PStr ''SELECT 1'')])
         (stub_world (Inr ''notes'') (Inr \<lparr>returncode = 0, stdout = ''ok'', stderr = ''''\<rparr>))))
       = [Spawn [''docker'', ''exec'', ''intellacc_db'', ''psql'', ''-U'',
                 ''intellacc_user'', ''-d'', ''intellaccdb'', ''-c'', ''SELECT 1'']]
   \<and> map_of [(''service'', PStr ''db'')] ''lines'' = None
   \<and> map_of [(''service'', PStr ''db'')] ''service'' = Some (PStr ''db'')
   \<and> container_map ''db'' = Some ''intellacc_db''
   \<and> handle_call_tool ''analyze_logs'' (map_of [(''service'', PStr ''db'')])
         (stub_world (Inr ''notes'') (Inr \<lparr>returncode = 0, stdout = ''ok'', stderr = ''''\<rparr>))
       = handle_call_tool ''analyze_logs''
           ((map_of [(''service'', PStr ''db'')])(''lines'' \<mapsto> PInt 50))
           (stub_world (Inr ''notes'') (Inr \<lparr>returncode = 0, stdout = ''ok'', stderr = ''''\<rparr>))
   \<and> calls (snd (handle_call_tool ''analyze_logs'' (map_of [(''service'', PStr ''db'')])
         (stub_world (Inr ''notes'') (Inr \<lparr>returncode = 0, stdout = ''ok'', stderr = ''''\<rparr>))))
       = [Spawn [''docker'', ''logs'', ''--tail'', ''50'', ''intellacc_db'']]"
proof -
  let ?w = "stub_world (Inr ''notes'') (Inr \<lparr>returncode = 0, stdout = ''ok'', stderr = ''''\<rparr>)"
  let ?q = "map_of [(''query'', PStr ''SELECT 1'')]"
  let ?l = "map_of [(''service'', PStr ''db'')]"
  have w: "calls ?w = []"
    by (simp add: stub_world_def)
  have db: "container_map ''db'' = Some ''intellacc_db''"
    by (simp add: container_map_def)
  note a = missing_arguments [of "''query_db''" "map_of []" ?w]
  note b = missing_arguments [of "''query_db''" ?q ?w "''SELECT 1''"]
  note c = missing_arguments [of "''analyze_logs''" ?l ?w _ "''db''" "''intellacc_db''"]
  have a1: "\<exists>t. fst (handle_call_tool ''query_db'' (map_of []) ?w) = Inr [TextContent ''text'' t]"
    using a [THEN conjunct1] by simp
  have a2: "\<exists>d. handle_call_tool ''query_db'' (map_of []) ?w
            = (Inr [TextContent ''text'' (''Error executing query: '' @ d)], ?w)"
    using a [THEN conjunct2, THEN conjunct1] by simp
  have a3: "handle_call_tool ''analyze_logs'' (map_of []) ?w
       = (Inr [TextContent ''text'' ''Unknown service: None''], ?w)"
    using a [THEN conjunct2, THEN conjunct2, THEN conjunct1] by simp
  have b1: "handle_call_tool ''query_db'' ?q ?w
       = handle_call_tool ''query_db'' (?q(''database'' \<mapsto> PStr ''intellaccdb'')) ?w"
    using b [THEN conjunct2, THEN conjunct2, THEN conjunct2, THEN conjunct1] by simp
  have b2: "calls (snd (handle_call_tool ''query_db'' ?q ?w))
       = [Spawn [''docker'', ''exec'', ''intellacc_db'', ''psql'', ''-U'',
                 ''intellacc_user'', ''-d'', ''intellaccdb'', ''-c'', ''SELECT 1'']]"
    using b [THEN conjunct2, THEN conjunct2, THEN conjunct2, THEN conjunct2, THEN conjunct2, THEN conjunct1] w by simp
  have c1: "handle_call_tool ''analyze_logs'' ?l ?w
       = handle_call_tool ''analyze_logs'' (?l(''lines'' \<mapsto> PInt 50)) ?w"
    using c [THEN conjunct2, THEN conjunct2, THEN conjunct2, THEN conjunct2, THEN conjunct1] by simp
  have c2: "calls (snd (handle_call_tool ''analyze_logs'' ?l ?w))
       = [Spawn [''docker'', ''logs'', ''--tail'', ''50'', ''intellacc_db'']]"
    using c [THEN conjunct2, THEN conjunct2, THEN conjunct2, THEN conjunct2, THEN conjunct2, THEN conjunct2] w db by simp
  show ?thesis
    using a1 a2 a3 b1 b2 c1 c2 db by (intro conjI) simp_all
qed

subsection \<open>Listing the tools\<close>

text \<open>
  Claim C9. \<open>handle_list_tools\<close> takes no argument, leaves the world as it is, and
  returns the same value in every world, in particular in the world left behind by any
  call of \<open>handle_call_tool\<close>: a list of exactly three tool descriptors, named
  \<open>query_db\<close>, \<open>get_project_status\<close> and \<open>analyze_logs\<close>, in this order.
\<close>

theorem list_tools_fixed:
  "snd (handle_list_tools w) = w
   \<and> fst (handle_list_tools w) = fst (handle_list_tools w')
   \<and> fst (handle_list_tools (snd (handle_call_tool name arguments w))) = fst (handle_list_tools w)
   \<and> (\<exists>ts. fst (handle_list_tools w) = Inr ts \<and> length ts = 3
          \<and> map tool_name ts = [''query_db'', ''get_project_status'', ''analyze_logs''])"
  by (simp add: handle_list_tools_def return_io_def)

end
